theory Spec2Isabelle
  imports Main "HOL-Library.Sublist"
begin

section \<open>Python values\<close>

text \<open>
  The vendor payloads and the metadata dictionaries of
  \<^verbatim>\<open>haystack/components/generators/chat/hugging_face_api.py\<close> hold values of type
  \<^verbatim>\<open>Any\<close>. They are modelled by one datatype of Python values. A dictionary is an
  association list in insertion order with pairwise distinct keys. A float is kept as
  the decimal \<open>m * 10 ^ e\<close> it was written as (or as an infinity or NaN); no operation
  of the module computes with floats, only their truth value is ever read.
\<close>

datatype pyfloat = Decimal int int | Infinity bool | NaN

datatype pyval =
    PNone
  | PBool bool
  | PInt int
  | PFloat pyfloat
  | PStr string
  | PList "pyval list"
  | PDict "(string \<times> pyval) list"

type_synonym pydict = "(string \<times> pyval) list"

text \<open>
  A decimal becomes the double \<open>0.0\<close> exactly when its magnitude is at most half of the
  smallest subnormal, \<open>2 ^ -1075\<close> (round to nearest, ties to even).
\<close>

definition float_is_zero :: "pyfloat \<Rightarrow> bool" where
  "float_is_zero f =
     (case f of
        Decimal m e \<Rightarrow>
          (if 0 \<le> e then m = 0 else \<bar>m\<bar> * 2 ^ 1075 \<le> 10 ^ nat (- e))
      | Infinity _ \<Rightarrow> False
      | NaN \<Rightarrow> False)"

text \<open>Python's \<^verbatim>\<open>bool(x)\<close>, as \<^verbatim>\<open>if x:\<close> and \<^verbatim>\<open>x or y\<close> read it.\<close>

fun truthy :: "pyval \<Rightarrow> bool" where
  "truthy PNone = False"
| "truthy (PBool b) = b"
| "truthy (PInt i) = (i \<noteq> 0)"
| "truthy (PFloat f) = (\<not> float_is_zero f)"
| "truthy (PStr s) = (s \<noteq> [])"
| "truthy (PList xs) = (xs \<noteq> [])"
| "truthy (PDict kvs) = (kvs \<noteq> [])"

text \<open>\<^verbatim>\<open>d.get(k)\<close>, \<^verbatim>\<open>d[k] = v\<close> and \<^verbatim>\<open>{**a, **b}\<close> on insertion-ordered dictionaries.\<close>

definition dict_get :: "string \<Rightarrow> (string \<times> 'v) list \<Rightarrow> 'v option" where
  "dict_get k d = map_of d k"

fun dict_set :: "string \<Rightarrow> 'v \<Rightarrow> (string \<times> 'v) list \<Rightarrow> (string \<times> 'v) list" where
  "dict_set k v [] = [(k, v)]"
| "dict_set k v ((k', v') # d) =
     (if k' = k then (k, v) # d else (k', v') # dict_set k v d)"

fun dict_merge :: "(string \<times> 'v) list \<Rightarrow> (string \<times> 'v) list \<Rightarrow> (string \<times> 'v) list" where
  "dict_merge a [] = a"
| "dict_merge a ((k, v) # b) = dict_merge (dict_set k v a) b"

definition is_dict :: "pyval \<Rightarrow> bool" where
  "is_dict v = (case v of PDict _ \<Rightarrow> True | _ \<Rightarrow> False)"

definition is_str :: "pyval \<Rightarrow> bool" where
  "is_str v = (case v of PStr _ \<Rightarrow> True | _ \<Rightarrow> False)"

section \<open>Errors\<close>

text \<open>
  The exceptions of the module. \<open>ToolsAndStreamingNotSupported\<close> to \<open>UnknownApiType\<close>
  are the \<^verbatim>\<open>ValueError\<close>s it raises for a wrong configuration, one constructor per
  message. \<open>JSONDecodeError\<close>, \<open>IntMaxStrDigits\<close> (the \<^verbatim>\<open>ValueError\<close> of an integer
  numeral with more digits than the interpreter converts) and \<open>RecursionError\<close> are what
  \<^verbatim>\<open>json.loads\<close> raises. \<open>External\<close> is whatever an external collaborator raises (the
  vendor transport, the model check, the message conversion, the caller's callback).
\<close>

datatype error =
    ToolsAndStreamingNotSupported
  | DuplicateToolNames
  | CallbackModeMismatch
  | MissingModelParam
  | MissingUrlParam
  | InvalidUrl pyval
  | UnknownApiType string
  | JSONDecodeError
  | IntMaxStrDigits
  | RecursionError
  | AttributeError
  | TypeError
  | External string

definition is_ValueError :: "error \<Rightarrow> bool" where
  "is_ValueError e =
     (case e of
        RecursionError \<Rightarrow> False
      | AttributeError \<Rightarrow> False
      | TypeError \<Rightarrow> False
      | External _ \<Rightarrow> False
      | _ \<Rightarrow> True)"

section \<open>The JSON decoder\<close>

text \<open>
  \<^verbatim>\<open>json.loads\<close> of the Python standard library, as the tool-call normaliser uses it:
  the result is the decoded value or the exception raised. Besides \<^verbatim>\<open>JSONDecodeError\<close>
  for a text that is not JSON, the decoder raises a plain \<^verbatim>\<open>ValueError\<close> for an integer
  numeral of more than \<open>int_max_str_digits\<close> digits, and \<^verbatim>\<open>RecursionError\<close> for arrays
  and objects nested deeper than the interpreter's recursion limit allows. The two
  limits are the defaults of CPython (4300 digits since version 3.11, 1000 frames); the
  frames already in use when the decoder is called lower the second.
  A Python string is modelled by its UTF-8 bytes, so an escape \<^verbatim>\<open>\uXXXX\<close> decodes to the
  bytes of its code point.
\<close>

definition int_max_str_digits :: nat where
  "int_max_str_digits = 4300"

definition recursion_limit :: nat where
  "recursion_limit = 1000"

definition is_ws :: "char \<Rightarrow> bool" where
  "is_ws c = (c = CHR '' '' \<or> c = CHR 0x09 \<or> c = CHR 0x0A \<or> c = CHR 0x0D)"

definition skip_ws :: "string \<Rightarrow> string" where
  "skip_ws s = dropWhile is_ws s"

definition is_digit :: "char \<Rightarrow> bool" where
  "is_digit c = (48 \<le> (of_char c :: nat) \<and> (of_char c :: nat) \<le> 57)"

definition digits_val :: "string \<Rightarrow> nat" where
  "digits_val ds = foldl (\<lambda>a c. 10 * a + (of_char c - 48)) 0 ds"

definition hex_val :: "char \<Rightarrow> nat option" where
  "hex_val c =
     (let n = (of_char c :: nat)
      in if 48 \<le> n \<and> n \<le> 57 then Some (n - 48)
         else if 65 \<le> n \<and> n \<le> 70 then Some (n - 55)
         else if 97 \<le> n \<and> n \<le> 102 then Some (n - 87)
         else None)"

definition decode_uXXXX :: "string \<Rightarrow> nat option" where
  "decode_uXXXX s =
     (case s of
        a # b # c # d # _ \<Rightarrow>
          (case (hex_val a, hex_val b, hex_val c, hex_val d) of
             (Some x, Some y, Some z, Some w) \<Rightarrow> Some (((x * 16 + y) * 16 + z) * 16 + w)
           | _ \<Rightarrow> None)
      | _ \<Rightarrow> None)"

definition chr_utf8 :: "nat \<Rightarrow> string" where
  "chr_utf8 u =
     (if u < 0x80 then [char_of u]
      else if u < 0x800 then [char_of (0xC0 + u div 0x40), char_of (0x80 + u mod 0x40)]
      else if u < 0x10000 then
        [char_of (0xE0 + u div 0x1000), char_of (0x80 + u div 0x40 mod 0x40),
         char_of (0x80 + u mod 0x40)]
      else
        [char_of (0xF0 + u div 0x40000), char_of (0x80 + u div 0x1000 mod 0x40),
         char_of (0x80 + u div 0x40 mod 0x40), char_of (0x80 + u mod 0x40)])"

definition backslash :: "char \<Rightarrow> char option" where
  "backslash e =
     (if e = CHR 0x22 then Some (CHR 0x22)
      else if e = CHR 0x5C then Some (CHR 0x5C)
      else if e = CHR ''/'' then Some (CHR ''/'')
      else if e = CHR ''b'' then Some (CHR 0x08)
      else if e = CHR ''f'' then Some (CHR 0x0C)
      else if e = CHR ''n'' then Some (CHR 0x0A)
      else if e = CHR ''r'' then Some (CHR 0x0D)
      else if e = CHR ''t'' then Some (CHR 0x09)
      else None)"

fun scanstring :: "string \<Rightarrow> string \<Rightarrow> (string \<times> string) option" where
  "scanstring acc [] = None"
| "scanstring acc (c # cs) =
     (if c = CHR 0x22 then Some (acc, cs)
      else if c \<noteq> CHR 0x5C then
        (if (of_char c :: nat) < 0x20 then None else scanstring (acc @ [c]) cs)
      else
        (case cs of
           [] \<Rightarrow> None
         | e # r \<Rightarrow>
             if e \<noteq> CHR ''u'' then
               (case backslash e of None \<Rightarrow> None | Some ch \<Rightarrow> scanstring (acc @ [ch]) r)
             else
               (case decode_uXXXX r of
                  None \<Rightarrow> None
                | Some uni \<Rightarrow>
                    (if 0xD800 \<le> uni \<and> uni \<le> 0xDBFF \<and> take 2 (drop 4 r) = [CHR 0x5C, CHR ''u'']
                     then
                       (case decode_uXXXX (drop 6 r) of
                          None \<Rightarrow> None
                        | Some uni2 \<Rightarrow>
                            if 0xDC00 \<le> uni2 \<and> uni2 \<le> 0xDFFF
                            then scanstring
                                   (acc @ chr_utf8 (0x10000 + ((uni - 0xD800) * 0x400
                                                               + (uni2 - 0xDC00))))
                                   (drop 10 r)
                            else scanstring (acc @ chr_utf8 uni) (drop 4 r))
                     else scanstring (acc @ chr_utf8 uni) (drop 4 r)))))"


text \<open>The number pattern of the decoder: an integer part, an optional fraction, an optional exponent.\<close>

definition scan_number :: "string \<Rightarrow> (error + (pyval \<times> string)) option" where
  "scan_number s =
     (let (neg, s1) = (case s of c # r \<Rightarrow> if c = CHR ''-'' then (True, r) else (False, s)
                       | [] \<Rightarrow> (False, s));
          (ipart, s2) = (case s1 of c # r \<Rightarrow> if c = CHR ''0'' then ([c], r)
                                                else (takeWhile is_digit s1, dropWhile is_digit s1)
                         | [] \<Rightarrow> ([], s1))
      in if ipart = [] then None
         else
           (let (frac, s3) =
                  (case s2 of
                     c # r \<Rightarrow>
                       if c = CHR ''.'' \<and> takeWhile is_digit r \<noteq> []
                       then (takeWhile is_digit r, dropWhile is_digit r) else ([], s2)
                   | [] \<Rightarrow> ([], s2));
                (ex, s4) =
                  (case s3 of
                     c # r \<Rightarrow>
                       if c = CHR ''e'' \<or> c = CHR ''E'' then
                         (let (eneg, r1) =
                                (case r of
                                   d # r' \<Rightarrow> if d = CHR ''-'' then (True, r')
                                              else if d = CHR ''+'' then (False, r')
                                              else (False, r)
                                 | [] \<Rightarrow> (False, r))
                          in if takeWhile is_digit r1 \<noteq> []
                             then (Some (if eneg then - int (digits_val (takeWhile is_digit r1))
                                         else int (digits_val (takeWhile is_digit r1))),
                                   dropWhile is_digit r1)
                             else (None, s3))
                       else (None, s3)
                   | [] \<Rightarrow> (None, s3));
                sgn = (if neg then - 1 else 1 :: int)
            in if frac = [] \<and> ex = None then
                 (if int_max_str_digits < length ipart then Some (Inl IntMaxStrDigits)
                  else Some (Inr (PInt (sgn * int (digits_val ipart)), s4)))
               else Some (Inr (PFloat (Decimal (sgn * int (digits_val (ipart @ frac)))
                                         ((case ex of None \<Rightarrow> 0 | Some e \<Rightarrow> e)
                                          - int (length frac))),
                               s4))))"

definition starts_with :: "string \<Rightarrow> string \<Rightarrow> bool" where
  "starts_with p s = (take (length p) s = p)"

text \<open>
  The scanner proper, with the depth of nesting it may still enter. Each recursive call
  reads a strictly shorter input; the tests \<open>length r < length s\<close> say so where the
  input of the call comes out of an earlier one.
\<close>

function scan_once :: "nat \<Rightarrow> string \<Rightarrow> error + (pyval \<times> string)"
  and parse_array :: "nat \<Rightarrow> pyval list \<Rightarrow> string \<Rightarrow> error + (pyval \<times> string)"
  and parse_object :: "nat \<Rightarrow> pydict \<Rightarrow> string \<Rightarrow> error + (pyval \<times> string)"
where
  "scan_once depth s =
     (case s of
        [] \<Rightarrow> Inl JSONDecodeError
      | c # r \<Rightarrow>
          if c = CHR 0x22 then
            (case scanstring [] r of
               None \<Rightarrow> Inl JSONDecodeError
             | Some (x, r') \<Rightarrow> Inr (PStr x, r'))
          else if c = CHR ''{'' then
            (if depth = 0 then Inl RecursionError
             else
               (case skip_ws r of
                  [] \<Rightarrow> Inl JSONDecodeError
                | d # r' \<Rightarrow> if d = CHR ''}'' then Inr (PDict [], r')
                            else if d = CHR 0x22 then parse_object (depth - 1) [] r'
                            else Inl JSONDecodeError))
          else if c = CHR ''['' then
            (if depth = 0 then Inl RecursionError
             else
               (case skip_ws r of
                  [] \<Rightarrow> Inl JSONDecodeError
                | d # r' \<Rightarrow> if d = CHR '']'' then Inr (PList [], r')
                            else parse_array (depth - 1) [] (skip_ws r)))
          else if starts_with ''null'' s then Inr (PNone, drop 4 s)
          else if starts_with ''true'' s then Inr (PBool True, drop 4 s)
          else if starts_with ''false'' s then Inr (PBool False, drop 5 s)
          else
            (case scan_number s of
               Some res \<Rightarrow> res
             | None \<Rightarrow>
                 if starts_with ''NaN'' s then Inr (PFloat NaN, drop 3 s)
                 else if starts_with ''Infinity'' s then Inr (PFloat (Infinity False), drop 8 s)
                 else if starts_with ''-Infinity'' s then Inr (PFloat (Infinity True), drop 9 s)
                 else Inl JSONDecodeError))"
| "parse_array depth values s =
     (case scan_once depth s of
        Inl e \<Rightarrow> Inl e
      | Inr (v, r) \<Rightarrow>
          if length r < length s then
            (case skip_ws r of
               [] \<Rightarrow> Inl JSONDecodeError
             | d # r' \<Rightarrow> if d = CHR '']'' then Inr (PList (values @ [v]), r')
                         else if d = CHR '','' then parse_array depth (values @ [v]) (skip_ws r')
                         else Inl JSONDecodeError)
          else Inl JSONDecodeError)"
| "parse_object depth pairs s =
     (case scanstring [] s of
        None \<Rightarrow> Inl JSONDecodeError
      | Some (key, r1) \<Rightarrow>
          (case skip_ws r1 of
             [] \<Rightarrow> Inl JSONDecodeError
           | col # r2 \<Rightarrow>
               if col = CHR '':'' \<and> length r2 < length s then
                 (case scan_once depth (skip_ws r2) of
                    Inl e \<Rightarrow> Inl e
                  | Inr (v, r3) \<Rightarrow>
                      if length r3 < length s then
                        (case skip_ws r3 of
                           [] \<Rightarrow> Inl JSONDecodeError
                         | d # r4 \<Rightarrow>
                             if d = CHR ''}'' then Inr (PDict (dict_set key v pairs), r4)
                             else if d = CHR '','' then
                               (case skip_ws r4 of
                                  [] \<Rightarrow> Inl JSONDecodeError
                                | q # r5 \<Rightarrow> if q = CHR 0x22
                                            then parse_object depth (dict_set key v pairs) r5
                                            else Inl JSONDecodeError)
                             else Inl JSONDecodeError)
                      else Inl JSONDecodeError)
               else Inl JSONDecodeError))"
  by pat_completeness auto
termination
proof -
  have ws: "\<And>xs y ys. skip_ws xs = y # ys \<Longrightarrow> length ys < length xs"
  proof -
    fix xs :: string and y ys
    assume "skip_ws xs = y # ys"
    then have "length (y # ys) \<le> length xs"
      using length_dropWhile_le [of is_ws xs] by (simp add: skip_ws_def)
    then show "length ys < length xs" by simp
  qed
  have ws': "\<And>xs. length (skip_ws xs) \<le> length xs"
    by (simp add: skip_ws_def length_dropWhile_le)
  show ?thesis
  proof (relation "measure (\<lambda>x. case x of
            Inl (_, s) \<Rightarrow> 2 * length s
          | Inr (Inl (_, _, s)) \<Rightarrow> 2 * length s + 1
          | Inr (Inr (_, _, s)) \<Rightarrow> 2 * length s + 1)", goal_cases)
    case 1
    show ?case by simp
  next
    case (2 depth s c r d r')
    then show ?case using ws [of r d r'] by simp
  next
    case (3 depth s c r d r')
    then show ?case using ws' [of r] by simp
  next
    case (4 depth "values" s)
    show ?case by simp
  next
    case (5 depth "values" s x v r d r')
    then show ?case using ws [of r d r'] ws' [of r'] by simp
  next
    case (6 depth pairs s x key r1 col r2)
    then show ?case using ws' [of r2] by simp
  next
    case (7 depth pairs s x key r1 col r2 y v r3 d r4 q r5)
    then show ?case using ws [of r3 d r4] ws [of r4 q r5] by simp
  qed
qed

definition json_loads :: "string \<Rightarrow> error + pyval" where
  "json_loads s =
     (case scan_once recursion_limit (skip_ws s) of
        Inl e \<Rightarrow> Inl e
      | Inr (obj, r) \<Rightarrow> if skip_ws r = [] then Inr obj else Inl JSONDecodeError)"

section \<open>Vendor and framework data\<close>

text \<open>
  The records of \<^verbatim>\<open>huggingface_hub\<close> that the module reads, with the fields it reads.
\<close>

record ChatCompletionOutputFunctionDefinition =
  fn_arguments :: pyval
  fn_name :: string

record ChatCompletionOutputToolCall =
  tc_function :: ChatCompletionOutputFunctionDefinition
  tc_id :: string

record ChatCompletionStreamOutputDeltaToolCall =
  dtc_id :: string
  dtc_index :: int
  dtc_name :: "string option"
  dtc_arguments :: string

record ChatCompletionStreamOutputDelta =
  sd_content :: "string option"
  sd_tool_call_id :: "string option"
  sd_tool_calls :: "ChatCompletionStreamOutputDeltaToolCall list option"

record ChatCompletionStreamOutputChoice =
  sc_delta :: ChatCompletionStreamOutputDelta
  sc_finish_reason :: "string option"
  sc_index :: int

record ChatCompletionStreamOutputUsage =
  su_prompt_tokens :: int
  su_completion_tokens :: int

record ChatCompletionStreamOutput =
  so_choices :: "ChatCompletionStreamOutputChoice list"
  so_model :: string
  so_usage :: "ChatCompletionStreamOutputUsage option"

text \<open>\<^verbatim>\<open>haystack.dataclasses.streaming_chunk.FinishReason\<close>, a closed set of literals.\<close>

datatype FinishReason = Stop | Length | Tool_calls | Content_filter | Tool_call_results

text \<open>
  Modelled from the spec: the dataclasses \<^verbatim>\<open>ComponentInfo\<close> and \<^verbatim>\<open>StreamingChunk\<close> of
  \<^verbatim>\<open>haystack.dataclasses\<close> are not part of the sources at hand. A chunk has an
  incremental content fragment, a metadata mapping, an optional index, a start flag and
  an optional finish reason; \<open>chunk_defaults\<close> gives the fields a constructor call
  leaves out: no index, no start, no finish reason.
\<close>

record ComponentInfo =
  ci_type :: string
  ci_name :: "string option"

record StreamingChunk =
  content :: string
  meta :: pydict
  component_info :: "ComponentInfo option"
  index :: "int option"
  start :: bool
  finish_reason :: "FinishReason option"

definition chunk_defaults :: "string \<Rightarrow> pydict \<Rightarrow> ComponentInfo option \<Rightarrow> StreamingChunk" where
  "chunk_defaults c m ci =
     \<lparr>content = c, meta = m, component_info = ci, index = None, start = False,
      finish_reason = None\<rparr>"

section \<open>Finish-reason mapper\<close>

definition finish_reason_mapping :: "(string \<times> FinishReason) list" where
  "finish_reason_mapping =
     [(''length'', Length), (''eos_token'', Stop), (''stop_sequence'', Stop)]"

definition map_hf_finish_reason_to_haystack ::
  "ChatCompletionStreamOutputChoice \<Rightarrow> FinishReason option" where
  "map_hf_finish_reason_to_haystack choice =
     (case sc_finish_reason choice of
        None \<Rightarrow> None
      | Some reason \<Rightarrow>
          (let has_tool_calls =
                 (sd_tool_calls (sc_delta choice) \<noteq> None
                  \<or> sd_tool_call_id (sc_delta choice) \<noteq> None)
           in if has_tool_calls then Some Tool_calls
              else Some (case map_of finish_reason_mapping reason of
                           Some r \<Rightarrow> r
                         | None \<Rightarrow> Stop)))"

section \<open>Chunk translator\<close>

text \<open>
  \<^verbatim>\<open>datetime.now().isoformat()\<close> is read once per event; the value read is the
  argument \<open>received_at\<close>.
\<close>

definition usage_dict :: "int \<Rightarrow> int \<Rightarrow> pyval" where
  "usage_dict p c = PDict [(''prompt_tokens'', PInt p), (''completion_tokens'', PInt c)]"

definition opt_str :: "string option \<Rightarrow> pyval" where
  "opt_str s = (case s of None \<Rightarrow> PNone | Some x \<Rightarrow> PStr x)"

definition convert_chat_completion_stream_output_to_streaming_chunk ::
  "string \<Rightarrow> ChatCompletionStreamOutput \<Rightarrow> StreamingChunk list \<Rightarrow> ComponentInfo option
   \<Rightarrow> StreamingChunk" where
  "convert_chat_completion_stream_output_to_streaming_chunk received_at chunk
       previous_chunks ci =
     (case so_choices chunk of
        [] \<Rightarrow>
          (let usage =
                 (case so_usage chunk of
                    None \<Rightarrow> PNone
                  | Some u \<Rightarrow> usage_dict (su_prompt_tokens u) (su_completion_tokens u))
           in chunk_defaults []
                [(''model'', PStr (so_model chunk)), (''received_at'', PStr received_at),
                 (''usage'', usage)]
                ci)
      | choice # _ \<Rightarrow>
          (let mapped_finish_reason =
                 (if sc_finish_reason choice \<noteq> None \<and> sc_finish_reason choice \<noteq> Some []
                  then map_hf_finish_reason_to_haystack choice else None)
           in \<lparr>content = (case sd_content (sc_delta choice) of None \<Rightarrow> [] | Some c \<Rightarrow> c),
               meta = [(''model'', PStr (so_model chunk)),
                       (''received_at'', PStr received_at),
                       (''finish_reason'', opt_str (sc_finish_reason choice))],
               component_info = ci,
               index = (if sc_finish_reason choice = None then Some 0 else None),
               start = (length previous_chunks = 0),
               finish_reason = mapped_finish_reason\<rparr>))"

section \<open>Tool-call normaliser\<close>

text \<open>
  Modelled from the spec: the dataclass \<^verbatim>\<open>ToolCall\<close> of \<^verbatim>\<open>haystack.dataclasses\<close> is not
  part of the sources at hand. It has a tool name, the arguments and an identifier; as a
  Python dataclass it stores the values the constructor is given, so the field
  \<open>arguments\<close> holds whatever value the normaliser passes.
\<close>

record ToolCall =
  tool_name :: string
  arguments :: pyval
  toolcall_id :: string

text \<open>
  The two calls of \<^verbatim>\<open>logger.warning\<close>, each with the tool call id, the tool name and the
  arguments it is given. Logging appends to the log and returns.
\<close>

datatype warning =
    MalformedJsonArguments string string pyval
  | InvalidArgumentsType string string pyval

text \<open>
  The loop of the normaliser. Of what \<^verbatim>\<open>json.loads\<close> raises, only \<^verbatim>\<open>JSONDecodeError\<close> is
  caught; any other exception ends the loop and is raised to the caller, after the
  warnings logged so far.
\<close>

fun convert_hfapi_tool_calls_loop ::
  "ChatCompletionOutputToolCall list \<Rightarrow> ToolCall list \<Rightarrow> warning list
   \<Rightarrow> (error + ToolCall list) \<times> warning list" where
  "convert_hfapi_tool_calls_loop [] tool_calls log = (Inr tool_calls, log)"
| "convert_hfapi_tool_calls_loop (hfapi_tc # rest) tool_calls log =
     (let hf_arguments = fn_arguments (tc_function hfapi_tc)
      in case (case hf_arguments of
                 PDict _ \<Rightarrow> Inr (hf_arguments, log)
               | PStr s \<Rightarrow>
                   (case json_loads s of
                      Inr v \<Rightarrow> Inr (v, log)
                    | Inl JSONDecodeError \<Rightarrow>
                        Inr (PNone,
                             log @ [MalformedJsonArguments (tc_id hfapi_tc)
                                      (fn_name (tc_function hfapi_tc)) hf_arguments])
                    | Inl e \<Rightarrow> Inl e)
               | _ \<Rightarrow>
                   Inr (PNone,
                        log @ [InvalidArgumentsType (tc_id hfapi_tc)
                                 (fn_name (tc_function hfapi_tc)) hf_arguments])) of
           Inl e \<Rightarrow> (Inl e, log)
         | Inr (args, log') \<Rightarrow>
             if truthy args
             then convert_hfapi_tool_calls_loop rest
                    (tool_calls @ [\<lparr>tool_name = fn_name (tc_function hfapi_tc),
                                     arguments = args, toolcall_id = tc_id hfapi_tc\<rparr>])
                    log'
             else convert_hfapi_tool_calls_loop rest tool_calls log')"

definition convert_hfapi_tool_calls ::
  "ChatCompletionOutputToolCall list option \<Rightarrow> (error + ToolCall list) \<times> warning list" where
  "convert_hfapi_tool_calls hfapi_tool_calls =
     (case hfapi_tool_calls of
        None \<Rightarrow> (Inr [], [])
      | Some [] \<Rightarrow> (Inr [], [])
      | Some tcs \<Rightarrow> convert_hfapi_tool_calls_loop tcs [] [])"

section \<open>Tools and callbacks\<close>

text \<open>
  Modelled from the spec: \<^verbatim>\<open>Tool\<close>, \<^verbatim>\<open>Toolset\<close> and \<^verbatim>\<open>_check_duplicate_tool_names\<close> of
  \<^verbatim>\<open>haystack.tools\<close> are not part of the sources at hand. A tool has a name, a description
  and parameters; the tools of a call are a list of tools or a toolset, which iterates
  over its tools and is false when it has none; duplicate tool names are rejected with a
  configuration error.
\<close>

record Tool =
  t_name :: string
  t_description :: string
  t_parameters :: pyval

datatype tools_arg = ToolList "Tool list" | Toolset "Tool list"

definition list_of_tools :: "tools_arg option \<Rightarrow> Tool list" where
  "list_of_tools ts =
     (case ts of None \<Rightarrow> [] | Some (ToolList xs) \<Rightarrow> xs | Some (Toolset xs) \<Rightarrow> xs)"

definition tools_truthy :: "tools_arg option \<Rightarrow> bool" where
  "tools_truthy ts = (list_of_tools ts \<noteq> [])"

definition check_duplicate_tool_names :: "Tool list \<Rightarrow> error option" where
  "check_duplicate_tool_names ts =
     (if distinct (map t_name ts) then None else Some DuplicateToolNames)"

text \<open>
  A streaming callback: whether it is a coroutine function, and what calling it on a
  chunk does (\<open>None\<close>: it returns; \<open>Some e\<close>: it raises \<open>e\<close>). A callable is true.

  Modelled from the spec: \<^verbatim>\<open>select_streaming_callback\<close> of \<^verbatim>\<open>haystack.dataclasses\<close> is not
  part of the sources at hand. The effective callback is the call-time argument if
  there is one, else the instance default, and it must match the call's sync or async
  mode.
\<close>

record StreamingCallbackT =
  cb_name :: string
  cb_async :: bool
  cb_call :: "StreamingChunk \<Rightarrow> error option"

definition select_streaming_callback ::
  "StreamingCallbackT option \<Rightarrow> StreamingCallbackT option \<Rightarrow> bool
   \<Rightarrow> error + StreamingCallbackT option" where
  "select_streaming_callback init_callback runtime_callback requires_async =
     (case (case runtime_callback of Some c \<Rightarrow> Some c | None \<Rightarrow> init_callback) of
        None \<Rightarrow> Inr None
      | Some c \<Rightarrow>
          if cb_async c = requires_async then Inr (Some c) else Inl CallbackModeMismatch)"

section \<open>Objects shared by reference\<close>

text \<open>
  The constructor copies the caller's dictionary of generation parameters and then
  extends a list that the copy may share with the original. Dictionaries and lists of
  generation parameters therefore live in a store, and a parameter value is an immutable
  value or the address of such an object.
\<close>

type_synonym addr = nat

datatype kwval = Imm pyval | Ref addr

type_synonym kwargs = "(string \<times> kwval) list"

datatype pyobj = DictObj kwargs | ListObj "kwval list"

type_synonym store = "pyobj list"

definition alloc :: "store \<Rightarrow> pyobj \<Rightarrow> addr \<times> store" where
  "alloc h obj = (length h, h @ [obj])"

definition lookup :: "store \<Rightarrow> addr \<Rightarrow> pyobj option" where
  "lookup h a = (if a < length h then Some (h ! a) else None)"

section \<open>The vendor client and the component\<close>

text \<open>
  The records of a non-streaming response, and a request as the component hands it to
  \<^verbatim>\<open>chat_completion\<close>: the arguments it names, and the generation parameters it passes as
  keywords.
\<close>

record ChatCompletionOutputMessage =
  om_content :: "string option"
  om_tool_calls :: "ChatCompletionOutputToolCall list option"

record ChatCompletionOutputComplete =
  oc_finish_reason :: "string option"
  oc_index :: int
  oc_message :: ChatCompletionOutputMessage

record ChatCompletionOutputUsage =
  ou_prompt_tokens :: int
  ou_completion_tokens :: int

record ChatCompletionOutput =
  co_choices :: "ChatCompletionOutputComplete list option"
  co_usage :: "ChatCompletionOutputUsage option"

record ChatCompletionInputTool =
  it_name :: string
  it_description :: string
  it_parameters :: pyval
  it_type :: string

record ChatRequest =
  rq_messages :: "pydict list"
  rq_tools :: "ChatCompletionInputTool list option"
  rq_stream :: bool
  rq_include_usage :: bool
  rq_kwargs :: kwargs

text \<open>
  A client of \<^verbatim>\<open>huggingface_hub\<close> is an external collaborator: its attribute \<^verbatim>\<open>model\<close>, and
  what \<^verbatim>\<open>chat_completion\<close> returns for a request, without and with \<^verbatim>\<open>stream=True\<close>. A call
  either raises or returns; a stream yields events until it ends or raises. Whatever the
  call raises, Python's own \<^verbatim>\<open>TypeError\<close> for a keyword it does not take included, is
  the client's \<open>Inl\<close>.
\<close>

record InferenceClient =
  cl_model :: pyval
  cl_chat_completion :: "ChatRequest \<Rightarrow> error + ChatCompletionOutput"
  cl_chat_completion_stream ::
    "ChatRequest \<Rightarrow> error + (error + ChatCompletionStreamOutput) list"

text \<open>
  Modelled from the spec: \<^verbatim>\<open>ChatMessage\<close> of \<^verbatim>\<open>haystack.dataclasses\<close>, \<^verbatim>\<open>Secret\<close> of
  \<^verbatim>\<open>haystack.utils\<close> and \<^verbatim>\<open>HFGenerationAPIType\<close> of \<^verbatim>\<open>haystack.utils.hf\<close> are not part of the
  sources at hand. A message has a role, an optional text, tool calls and metadata; a
  credential is an explicit token or a reference to environment variables; the API
  variant is one of three, named by the strings the constructor documents, and any
  other string is a configuration error.
\<close>

datatype ChatRole = System | User | Assistant | ToolRole

record ChatMessage =
  msg_role :: ChatRole
  msg_text :: "string option"
  msg_tool_calls :: "ToolCall list"
  msg_meta :: pydict

definition from_assistant :: "string option \<Rightarrow> ToolCall list \<Rightarrow> pydict \<Rightarrow> ChatMessage" where
  "from_assistant txt tcs m =
     \<lparr>msg_role = Assistant, msg_text = txt, msg_tool_calls = tcs, msg_meta = m\<rparr>"

datatype Secret = TokenSecret string | EnvVarSecret "string list" bool

datatype HFGenerationAPIType =
  TEXT_GENERATION_INFERENCE | INFERENCE_ENDPOINTS | SERVERLESS_INFERENCE_API

definition from_str :: "string \<Rightarrow> error + HFGenerationAPIType" where
  "from_str x =
     (if x = ''text_generation_inference'' then Inr TEXT_GENERATION_INFERENCE
      else if x = ''inference_endpoints'' then Inr INFERENCE_ENDPOINTS
      else if x = ''serverless_inference_api'' then Inr SERVERLESS_INFERENCE_API
      else Inl (UnknownApiType x))"

text \<open>
  The other collaborators of the component: the import check of \<^verbatim>\<open>huggingface_hub\<close>, the
  model check, the URL check, the resolution of a credential, the constructors of the
  two clients, the conversion of a message to the vendor's format, and the clock (its
  \<open>k\<close>-th reading during a call).
\<close>

record env =
  hub_import_check :: "error option"
  check_valid_model :: "pyval \<Rightarrow> Secret option \<Rightarrow> error option"
  is_valid_http_url :: "pyval \<Rightarrow> bool"
  resolve_value :: "Secret \<Rightarrow> error + string option"
  new_client :: "pyval \<Rightarrow> string option \<Rightarrow> pydict \<Rightarrow> error + InferenceClient"
  new_async_client :: "pyval \<Rightarrow> string option \<Rightarrow> pydict \<Rightarrow> error + InferenceClient"
  convert_message_to_hf_format :: "ChatMessage \<Rightarrow> error + pydict"
  now_isoformat :: "nat \<Rightarrow> string"

record HuggingFaceAPIChatGenerator =
  self_api_type :: HFGenerationAPIType
  self_api_params :: pydict
  self_token :: "Secret option"
  self_generation_kwargs :: addr
  self_streaming_callback :: "StreamingCallbackT option"
  self_client :: InferenceClient
  self_async_client :: InferenceClient
  self_tools :: "tools_arg option"
  self_component_name :: "string option"

section \<open>The constructor\<close>

text \<open>
  The set-up of the generation parameters: a copy of the caller's dictionary (a new
  object), the entry \<open>stop\<close> (the caller's list if there is one, else a new list)
  extended in place by the stop words, and the default for \<open>max_tokens\<close>. Extending a
  value that is not a list raises \<^verbatim>\<open>AttributeError\<close>.
\<close>

definition init_generation_kwargs ::
  "store \<Rightarrow> addr option \<Rightarrow> string list option \<Rightarrow> error + (addr \<times> store)" where
  "init_generation_kwargs h generation_kwargs stop_words =
     (case (case generation_kwargs of
              None \<Rightarrow> Inr []
            | Some a \<Rightarrow> (case lookup h a of Some (DictObj d) \<Rightarrow> Inr d | _ \<Rightarrow> Inl TypeError)) of
        Inl e \<Rightarrow> Inl e
      | Inr d \<Rightarrow>
          (let (gk, h1) = alloc h (DictObj d);
               (stop, h2) =
                 (case dict_get ''stop'' d of
                    Some v \<Rightarrow> (v, h1)
                  | None \<Rightarrow> (let (l, h') = alloc h1 (ListObj []) in (Ref l, h')));
               d3 = dict_set ''stop'' stop d;
               h3 = h2[gk := DictObj d3]
           in case stop of
                Imm _ \<Rightarrow> Inl AttributeError
              | Ref l \<Rightarrow>
                  (case lookup h3 l of
                     Some (ListObj xs) \<Rightarrow>
                       (let h4 = h3[l := ListObj
                                   (xs @ map (\<lambda>w. Imm (PStr w))
                                           (case stop_words of None \<Rightarrow> [] | Some ws \<Rightarrow> ws))];
                            d5 = (case dict_get ''max_tokens'' d3 of
                                    Some _ \<Rightarrow> d3
                                  | None \<Rightarrow> d3 @ [(''max_tokens'', Imm (PInt 512))])
                        in Inr (gk, h4[gk := DictObj d5]))
                   | _ \<Rightarrow> Inl AttributeError)))"

datatype api_type_arg = ApiType HFGenerationAPIType | ApiTypeStr string

definition resolve_token :: "env \<Rightarrow> Secret option \<Rightarrow> error + string option" where
  "resolve_token E token = (case token of None \<Rightarrow> Inr None | Some t \<Rightarrow> resolve_value E t)"

definition init ::
  "env \<Rightarrow> store \<Rightarrow> api_type_arg \<Rightarrow> pydict \<Rightarrow> Secret option \<Rightarrow> addr option
   \<Rightarrow> string list option \<Rightarrow> StreamingCallbackT option \<Rightarrow> tools_arg option
   \<Rightarrow> error + (HuggingFaceAPIChatGenerator \<times> store)" where
  "init E h api_type api_params token generation_kwargs stop_words streaming_callback tools =
     (case hub_import_check E of
        Some e \<Rightarrow> Inl e
      | None \<Rightarrow>
     (case (case api_type of ApiType t \<Rightarrow> Inr t | ApiTypeStr x \<Rightarrow> from_str x) of
        Inl e \<Rightarrow> Inl e
      | Inr api_type' \<Rightarrow>
     (case (case api_type' of
              SERVERLESS_INFERENCE_API \<Rightarrow>
                (case dict_get ''model'' api_params of
                   None \<Rightarrow> Inl MissingModelParam
                 | Some PNone \<Rightarrow> Inl MissingModelParam
                 | Some model \<Rightarrow>
                     (case check_valid_model E model token of
                        Some e \<Rightarrow> Inl e
                      | None \<Rightarrow> Inr model))
            | _ \<Rightarrow>
                (case dict_get ''url'' api_params of
                   None \<Rightarrow> Inl MissingUrlParam
                 | Some PNone \<Rightarrow> Inl MissingUrlParam
                 | Some url \<Rightarrow>
                     if \<not> is_valid_http_url E url then Inl (InvalidUrl url) else Inr url)) of
        Inl e \<Rightarrow> Inl e
      | Inr model_or_url \<Rightarrow>
          if tools_truthy tools \<and> streaming_callback \<noteq> None
          then Inl ToolsAndStreamingNotSupported
          else
     (case check_duplicate_tool_names (list_of_tools tools) of
        Some e \<Rightarrow> Inl e
      | None \<Rightarrow>
     (case init_generation_kwargs h generation_kwargs stop_words of
        Inl e \<Rightarrow> Inl e
      | Inr (gk, h') \<Rightarrow>
          (let resolved_api_params =
                 filter (\<lambda>(k, v). k \<noteq> ''model'' \<and> k \<noteq> ''url'') api_params
           in
     (case resolve_token E token of
        Inl e \<Rightarrow> Inl e
      | Inr tok \<Rightarrow>
     (case new_client E model_or_url tok resolved_api_params of
        Inl e \<Rightarrow> Inl e
      | Inr client \<Rightarrow>
     (case resolve_token E token of
        Inl e \<Rightarrow> Inl e
      | Inr tok' \<Rightarrow>
     (case new_async_client E model_or_url tok' resolved_api_params of
        Inl e \<Rightarrow> Inl e
      | Inr async_client \<Rightarrow>
          Inr (\<lparr>self_api_type = api_type', self_api_params = api_params,
                self_token = token, self_generation_kwargs = gk,
                self_streaming_callback = streaming_callback, self_client = client,
                self_async_client = async_client, self_tools = tools,
                self_component_name = None\<rparr>, h')))))))))))"

section \<open>Running the component\<close>

text \<open>
  What a call does besides returning: the requests it hands to the vendor client, the
  chunks it hands to the streaming callback, and the warnings it logs, each in order.
\<close>

record effects =
  eff_requests :: "ChatRequest list"
  eff_delivered :: "StreamingChunk list"
  eff_warnings :: "warning list"

definition no_effects :: effects where
  "no_effects = \<lparr>eff_requests = [], eff_delivered = [], eff_warnings = []\<rparr>"

text \<open>
  Modelled from the spec: \<^verbatim>\<open>ComponentInfo.from_component\<close> and
  \<^verbatim>\<open>_convert_streaming_chunks_to_chat_message\<close> of \<^verbatim>\<open>haystack.components.generators.utils\<close>
  are not part of the sources at hand. The component info names the component for trace
  attribution. The fold concatenates all chunk contents in order to form the text; the
  metadata of the message is that of the last chunk that carries a usage object, or
  zero-valued usage if none ever did; there are no tool calls on this path.
\<close>

definition from_component :: "HuggingFaceAPIChatGenerator \<Rightarrow> ComponentInfo" where
  "from_component self =
     \<lparr>ci_type = ''haystack.components.generators.chat.hugging_face_api.HuggingFaceAPIChatGenerator'',
      ci_name = self_component_name self\<rparr>"

definition carries_usage :: "StreamingChunk \<Rightarrow> bool" where
  "carries_usage c =
     (case dict_get ''usage'' (meta c) of None \<Rightarrow> False | Some PNone \<Rightarrow> False | Some _ \<Rightarrow> True)"

definition convert_streaming_chunks_to_chat_message :: "StreamingChunk list \<Rightarrow> ChatMessage" where
  "convert_streaming_chunks_to_chat_message chunks =
     from_assistant (Some (concat (map content chunks))) []
       (case filter carries_usage chunks of
          [] \<Rightarrow> [(''usage'', usage_dict 0 0)]
        | c # cs \<Rightarrow> meta (last (c # cs)))"

text \<open>
  The loop of \<^verbatim>\<open>_run_streaming\<close> over the events of the stream: translate the event, append
  the chunk, call the callback. It ends with the stream, or with the first exception of
  the stream or of the callback.
\<close>

fun stream_loop ::
  "(nat \<Rightarrow> string) \<Rightarrow> StreamingCallbackT \<Rightarrow> ComponentInfo
   \<Rightarrow> (error + ChatCompletionStreamOutput) list \<Rightarrow> StreamingChunk list
   \<Rightarrow> error option \<times> StreamingChunk list" where
  "stream_loop clock cb ci [] streaming_chunks = (None, streaming_chunks)"
| "stream_loop clock cb ci (Inl e # api_output) streaming_chunks = (Some e, streaming_chunks)"
| "stream_loop clock cb ci (Inr chunk # api_output) streaming_chunks =
     (let streaming_chunk =
            convert_chat_completion_stream_output_to_streaming_chunk
              (clock (length streaming_chunks)) chunk streaming_chunks (Some ci)
      in case cb_call cb streaming_chunk of
           Some e \<Rightarrow> (Some e, streaming_chunks @ [streaming_chunk])
         | None \<Rightarrow> stream_loop clock cb ci api_output (streaming_chunks @ [streaming_chunk]))"

definition run_streaming_with ::
  "InferenceClient \<Rightarrow> env \<Rightarrow> HuggingFaceAPIChatGenerator \<Rightarrow> pydict list \<Rightarrow> kwargs
   \<Rightarrow> StreamingCallbackT \<Rightarrow> (error + ChatMessage list) \<times> effects" where
  "run_streaming_with client E self messages generation_kwargs streaming_callback =
     (let req = \<lparr>rq_messages = messages, rq_tools = None, rq_stream = True,
                 rq_include_usage = True, rq_kwargs = generation_kwargs\<rparr>
      in case cl_chat_completion_stream client req of
           Inl e \<Rightarrow> (Inl e, no_effects\<lparr>eff_requests := [req]\<rparr>)
         | Inr api_output \<Rightarrow>
             (case stream_loop (now_isoformat E) streaming_callback (from_component self)
                     api_output [] of
                (Some e, streaming_chunks) \<Rightarrow>
                  (Inl e, no_effects\<lparr>eff_requests := [req], eff_delivered := streaming_chunks\<rparr>)
              | (None, streaming_chunks) \<Rightarrow>
                  (let message = convert_streaming_chunks_to_chat_message streaming_chunks;
                       message' =
                         (case dict_get ''usage'' (msg_meta message) of
                            Some PNone \<Rightarrow>
                              message\<lparr>msg_meta :=
                                dict_set ''usage'' (usage_dict 0 0) (msg_meta message)\<rparr>
                          | None \<Rightarrow>
                              message\<lparr>msg_meta :=
                                dict_set ''usage'' (usage_dict 0 0) (msg_meta message)\<rparr>
                          | Some _ \<Rightarrow> message)
                   in (Inr [message'],
                       no_effects\<lparr>eff_requests := [req],
                                  eff_delivered := streaming_chunks\<rparr>))))"

definition run_non_streaming_with ::
  "InferenceClient \<Rightarrow> pydict list \<Rightarrow> kwargs \<Rightarrow> ChatCompletionInputTool list option
   \<Rightarrow> (error + ChatMessage list) \<times> effects" where
  "run_non_streaming_with client messages generation_kwargs tools =
     (let req = \<lparr>rq_messages = messages, rq_tools = tools, rq_stream = False,
                 rq_include_usage = False, rq_kwargs = generation_kwargs\<rparr>
      in case cl_chat_completion client req of
           Inl e \<Rightarrow> (Inl e, no_effects\<lparr>eff_requests := [req]\<rparr>)
         | Inr api_chat_output \<Rightarrow>
             (case co_choices api_chat_output of
                None \<Rightarrow> (Inr [], no_effects\<lparr>eff_requests := [req]\<rparr>)
              | Some [] \<Rightarrow> (Inr [], no_effects\<lparr>eff_requests := [req]\<rparr>)
              | Some (choice # _) \<Rightarrow>
                  (let txt = om_content (oc_message choice)
                   in case convert_hfapi_tool_calls (om_tool_calls (oc_message choice)) of
                        (Inl e, log) \<Rightarrow>
                          (Inl e, no_effects\<lparr>eff_requests := [req], eff_warnings := log\<rparr>)
                      | (Inr tool_calls, log) \<Rightarrow>
                          (let meta0 = [(''model'', cl_model client),
                                        (''finish_reason'', opt_str (oc_finish_reason choice)),
                                        (''index'', PInt (oc_index choice))];
                               usage =
                                 (case co_usage api_chat_output of
                                    None \<Rightarrow> usage_dict 0 0
                                  | Some u \<Rightarrow>
                                      usage_dict (ou_prompt_tokens u)
                                        (ou_completion_tokens u))
                           in (Inr [from_assistant txt tool_calls
                                      (dict_set ''usage'' usage meta0)],
                               no_effects\<lparr>eff_requests := [req],
                                          eff_warnings := log\<rparr>)))))"

text \<open>
  The four private methods. The asynchronous ones repeat the synchronous ones line by
  line, with the asynchronous client and awaited calls.
\<close>

definition run_streaming ::
  "env \<Rightarrow> HuggingFaceAPIChatGenerator \<Rightarrow> pydict list \<Rightarrow> kwargs \<Rightarrow> StreamingCallbackT
   \<Rightarrow> (error + ChatMessage list) \<times> effects" where
  "run_streaming E self = run_streaming_with (self_client self) E self"

definition run_streaming_async ::
  "env \<Rightarrow> HuggingFaceAPIChatGenerator \<Rightarrow> pydict list \<Rightarrow> kwargs \<Rightarrow> StreamingCallbackT
   \<Rightarrow> (error + ChatMessage list) \<times> effects" where
  "run_streaming_async E self = run_streaming_with (self_async_client self) E self"

definition run_non_streaming ::
  "HuggingFaceAPIChatGenerator \<Rightarrow> pydict list \<Rightarrow> kwargs \<Rightarrow> ChatCompletionInputTool list option
   \<Rightarrow> (error + ChatMessage list) \<times> effects" where
  "run_non_streaming self = run_non_streaming_with (self_client self)"

definition run_non_streaming_async ::
  "HuggingFaceAPIChatGenerator \<Rightarrow> pydict list \<Rightarrow> kwargs \<Rightarrow> ChatCompletionInputTool list option
   \<Rightarrow> (error + ChatMessage list) \<times> effects" where
  "run_non_streaming_async self = run_non_streaming_with (self_async_client self)"

fun format_messages ::
  "(ChatMessage \<Rightarrow> error + pydict) \<Rightarrow> ChatMessage list \<Rightarrow> error + pydict list" where
  "format_messages f [] = Inr []"
| "format_messages f (m # ms) =
     (case f m of
        Inl e \<Rightarrow> Inl e
      | Inr x \<Rightarrow> (case format_messages f ms of Inl e \<Rightarrow> Inl e | Inr xs \<Rightarrow> Inr (x # xs)))"

definition convert_tools_to_hfapi_tools ::
  "tools_arg option \<Rightarrow> ChatCompletionInputTool list option" where
  "convert_tools_to_hfapi_tools tools =
     (if \<not> tools_truthy tools then None
      else Some (map (\<lambda>tool. \<lparr>it_name = t_name tool, it_description = t_description tool,
                               it_parameters = t_parameters tool, it_type = ''function''\<rparr>)
                     (list_of_tools tools)))"

text \<open>
  \<^verbatim>\<open>run\<close> and \<^verbatim>\<open>run_async\<close> are the same text but for \<^verbatim>\<open>requires_async\<close> and the private
  methods they call; \<open>run_with\<close> is that text. The instance's generation parameters are
  read from the store; the per-call override is only read, so it is passed by value.
\<close>

definition run_with ::
  "bool \<Rightarrow> env \<Rightarrow> store \<Rightarrow> HuggingFaceAPIChatGenerator \<Rightarrow> ChatMessage list
   \<Rightarrow> kwargs option \<Rightarrow> tools_arg option \<Rightarrow> StreamingCallbackT option
   \<Rightarrow> (error + ChatMessage list) \<times> effects" where
  "run_with requires_async E h self messages generation_kwargs tools streaming_callback =
     (case lookup h (self_generation_kwargs self) of
        Some (DictObj defaults) \<Rightarrow>
          (let generation_kwargs' =
                 dict_merge defaults (case generation_kwargs of None \<Rightarrow> [] | Some d \<Rightarrow> d)
           in case format_messages (convert_message_to_hf_format E) messages of
                Inl e \<Rightarrow> (Inl e, no_effects)
              | Inr formatted_messages \<Rightarrow>
                  (let tools' = (if tools_truthy tools then tools else self_tools self)
                   in if tools_truthy tools' \<and> self_streaming_callback self \<noteq> None
                      then (Inl ToolsAndStreamingNotSupported, no_effects)
                      else
                        (case check_duplicate_tool_names (list_of_tools tools') of
                           Some e \<Rightarrow> (Inl e, no_effects)
                         | None \<Rightarrow>
                             (case select_streaming_callback (self_streaming_callback self)
                                     streaming_callback requires_async of
                                Inl e \<Rightarrow> (Inl e, no_effects)
                              | Inr (Some cb) \<Rightarrow>
                                  (if requires_async
                                   then run_streaming_async E self formatted_messages
                                          generation_kwargs' cb
                                   else run_streaming E self formatted_messages
                                          generation_kwargs' cb)
                              | Inr None \<Rightarrow>
                                  (if requires_async
                                   then run_non_streaming_async self formatted_messages
                                          generation_kwargs'
                                          (convert_tools_to_hfapi_tools tools')
                                   else run_non_streaming self formatted_messages
                                          generation_kwargs'
                                          (convert_tools_to_hfapi_tools tools'))))))
      | _ \<Rightarrow> (Inl TypeError, no_effects))"

definition run ::
  "env \<Rightarrow> store \<Rightarrow> HuggingFaceAPIChatGenerator \<Rightarrow> ChatMessage list \<Rightarrow> kwargs option
   \<Rightarrow> tools_arg option \<Rightarrow> StreamingCallbackT option
   \<Rightarrow> (error + ChatMessage list) \<times> effects" where
  "run = run_with False"

definition run_async ::
  "env \<Rightarrow> store \<Rightarrow> HuggingFaceAPIChatGenerator \<Rightarrow> ChatMessage list \<Rightarrow> kwargs option
   \<Rightarrow> tools_arg option \<Rightarrow> StreamingCallbackT option
   \<Rightarrow> (error + ChatMessage list) \<times> effects" where
  "run_async = run_with True"


section \<open>Example values\<close>

text \<open>Concrete inputs, for the statements below to be tried on.\<close>

definition ex_event :: "string \<Rightarrow> string option \<Rightarrow> ChatCompletionStreamOutput" where
  "ex_event txt reason =
     \<lparr>so_choices = [\<lparr>sc_delta = \<lparr>sd_content = Some txt, sd_tool_call_id = None,
                                   sd_tool_calls = None\<rparr>,
                      sc_finish_reason = reason, sc_index = 0\<rparr>],
      so_model = ''model-x'', so_usage = None\<rparr>"

definition ex_events :: "(error + ChatCompletionStreamOutput) list" where
  "ex_events = [Inr (ex_event ''Hel'' None), Inr (ex_event ''lo'' (Some ''eos_token''))]"

definition ex_callback :: StreamingCallbackT where
  "ex_callback = \<lparr>cb_name = ''print_chunk'', cb_async = False, cb_call = (\<lambda>_. None)\<rparr>"

definition ex_clock :: "nat \<Rightarrow> string" where
  "ex_clock k = ''2025-01-01T00:00:00''"

definition ex_info :: ComponentInfo where
  "ex_info = \<lparr>ci_type = ''HuggingFaceAPIChatGenerator'', ci_name = None\<rparr>"

definition ex_client :: InferenceClient where
  "ex_client =
     \<lparr>cl_model = PStr ''model-x'',
      cl_chat_completion = (\<lambda>_. Inr \<lparr>co_choices = Some [], co_usage = None\<rparr>),
      cl_chat_completion_stream = (\<lambda>_. Inr ex_events)\<rparr>"

definition ex_env :: env where
  "ex_env =
     \<lparr>hub_import_check = None,
      check_valid_model = (\<lambda>_ _. None),
      is_valid_http_url = (\<lambda>_. True),
      resolve_value = (\<lambda>_. Inr (Some ''hf_token'')),
      new_client = (\<lambda>_ _ _. Inr ex_client),
      new_async_client = (\<lambda>_ _ _. Inr ex_client),
      convert_message_to_hf_format =
        (\<lambda>m. Inr [(''role'', PStr ''user''), (''content'', opt_str (msg_text m))]),
      now_isoformat = ex_clock\<rparr>"

definition ex_store :: store where
  "ex_store = [DictObj [(''stop'', Ref 1), (''max_tokens'', Imm (PInt 512))], ListObj []]"

definition ex_generator :: "StreamingCallbackT option \<Rightarrow> HuggingFaceAPIChatGenerator" where
  "ex_generator cb =
     \<lparr>self_api_type = TEXT_GENERATION_INFERENCE,
      self_api_params = [(''url'', PStr ''http://localhost:8080'')],
      self_token = None, self_generation_kwargs = 0, self_streaming_callback = cb,
      self_client = ex_client, self_async_client = ex_client, self_tools = None,
      self_component_name = None\<rparr>"

definition ex_tool :: Tool where
  "ex_tool = \<lparr>t_name = ''weather'', t_description = ''Weather of a city'',
              t_parameters = PDict [(''type'', PStr ''object'')]\<rparr>"

definition ex_message :: ChatMessage where
  "ex_message = \<lparr>msg_role = User, msg_text = Some ''Hi'', msg_tool_calls = [], msg_meta = []\<rparr>"





section \<open>Properties of the finish-reason mapper\<close>

text \<open>
  C3. The finish-reason mapper is a total function: an absent vendor finish reason gives
  an absent result; otherwise, when the delta carries tool-call fragments or a tool-call
  identifier, the result is \<open>Tool_calls\<close> whatever the vendor's reason says; otherwise
  \<open>length\<close> gives \<open>Length\<close>, and \<open>eos_token\<close>, \<open>stop_sequence\<close> and every
  other string give \<open>Stop\<close>.
\<close>

theorem map_hf_finish_reason_cases:
  "map_hf_finish_reason_to_haystack choice =
     (case sc_finish_reason choice of
        None \<Rightarrow> None
      | Some reason \<Rightarrow>
          Some (if sd_tool_calls (sc_delta choice) \<noteq> None
                   \<or> sd_tool_call_id (sc_delta choice) \<noteq> None then Tool_calls
                else if reason = ''length'' then Length
                else Stop))"
  by (simp add: map_hf_finish_reason_to_haystack_def finish_reason_mapping_def Let_def
           split: option.splits)

theorem map_hf_finish_reason_cases_witness:
  "map_hf_finish_reason_to_haystack
     \<lparr>sc_delta = \<lparr>sd_content = Some ''hi'', sd_tool_call_id = None, sd_tool_calls = None\<rparr>,
      sc_finish_reason = Some ''eos_token'', sc_index = 0\<rparr> = Some Stop
   \<and> map_hf_finish_reason_to_haystack
     \<lparr>sc_delta = \<lparr>sd_content = None, sd_tool_call_id = Some ''call_1'', sd_tool_calls = None\<rparr>,
      sc_finish_reason = Some ''eos_token'', sc_index = 0\<rparr> = Some Tool_calls
   \<and> map_hf_finish_reason_to_haystack
     \<lparr>sc_delta = \<lparr>sd_content = None, sd_tool_call_id = None, sd_tool_calls = Some []\<rparr>,
      sc_finish_reason = None, sc_index = 0\<rparr> = None"
  using
    map_hf_finish_reason_cases
      [of "\<lparr>sc_delta = \<lparr>sd_content = Some ''hi'', sd_tool_call_id = None,
                         sd_tool_calls = None\<rparr>,
            sc_finish_reason = Some ''eos_token'', sc_index = 0\<rparr>"]
    map_hf_finish_reason_cases
      [of "\<lparr>sc_delta = \<lparr>sd_content = None, sd_tool_call_id = Some ''call_1'',
                         sd_tool_calls = None\<rparr>,
            sc_finish_reason = Some ''eos_token'', sc_index = 0\<rparr>"]
    map_hf_finish_reason_cases
      [of "\<lparr>sc_delta = \<lparr>sd_content = None, sd_tool_call_id = None, sd_tool_calls = Some []\<rparr>,
            sc_finish_reason = None, sc_index = 0\<rparr>"]
  by simp

section \<open>Properties of the chunk translator\<close>

text \<open>
  C8. For an event with zero choices the translator returns a chunk with empty content
  whose metadata holds the model id, the receipt timestamp, and under \<open>usage\<close> either
  the vendor's prompt and completion token counts, when the event carries usage, or
  \<open>None\<close>, when it does not.
\<close>

theorem zero_choices_chunk:
  assumes "so_choices chunk = []"
  shows "content (convert_chat_completion_stream_output_to_streaming_chunk t chunk prev ci) = []
    \<and> dict_get ''model''
        (meta (convert_chat_completion_stream_output_to_streaming_chunk t chunk prev ci))
      = Some (PStr (so_model chunk))
    \<and> dict_get ''received_at''
        (meta (convert_chat_completion_stream_output_to_streaming_chunk t chunk prev ci))
      = Some (PStr t)
    \<and> dict_get ''usage''
        (meta (convert_chat_completion_stream_output_to_streaming_chunk t chunk prev ci))
      = Some (case so_usage chunk of
                None \<Rightarrow> PNone
              | Some u \<Rightarrow> PDict [(''prompt_tokens'', PInt (su_prompt_tokens u)),
                                   (''completion_tokens'', PInt (su_completion_tokens u))])"
  using assms
  by (simp add: convert_chat_completion_stream_output_to_streaming_chunk_def
        chunk_defaults_def dict_get_def usage_dict_def Let_def split: option.splits)

theorem zero_choices_chunk_witness:
  "dict_get ''usage''
     (meta (convert_chat_completion_stream_output_to_streaming_chunk ''2025-01-01T00:00:00''
        \<lparr>so_choices = [], so_model = ''m'',
         so_usage = Some \<lparr>su_prompt_tokens = 7, su_completion_tokens = 3\<rparr>\<rparr> [] None))
   = Some (PDict [(''prompt_tokens'', PInt 7), (''completion_tokens'', PInt 3)])"
  using zero_choices_chunk
    [of "\<lparr>so_choices = [], so_model = ''m'',
          so_usage = Some \<lparr>su_prompt_tokens = 7, su_completion_tokens = 3\<rparr>\<rparr>"
        "''2025-01-01T00:00:00''" "[]" None]
  by simp

text \<open>
  The chunks of a turn, one by one: each is the translation of the event at its
  position, given the chunks before it.
\<close>

lemma stream_loop_chunks:
  "stream_loop clock cb ci events prev = (r, chunks) \<Longrightarrow>
   \<exists>new. chunks = prev @ new \<and> length new \<le> length events
     \<and> (\<forall>i < length new.
           \<exists>ev. events ! i = Inr ev
             \<and> new ! i = convert_chat_completion_stream_output_to_streaming_chunk
                           (clock (length prev + i)) ev (prev @ take i new) (Some ci))"
proof (induction events arbitrary: prev)
  case Nil
  then show ?case by simp
next
  case (Cons x events)
  show ?case
  proof (cases x)
    case (Inl e)
    with Cons.prems show ?thesis by simp
  next
    case (Inr ev)
    let ?c = "convert_chat_completion_stream_output_to_streaming_chunk
                (clock (length prev)) ev prev (Some ci)"
    show ?thesis
    proof (cases "cb_call cb ?c")
      case (Some e)
      with Cons.prems Inr have "chunks = prev @ [?c]" by (simp add: Let_def)
      then show ?thesis using Inr by (intro exI [of _ "[?c]"]) simp
    next
      case None
      with Cons.prems Inr have
        "stream_loop clock cb ci events (prev @ [?c]) = (r, chunks)"
        by (simp add: Let_def)
      from Cons.IH [OF this] obtain new where
        c: "chunks = (prev @ [?c]) @ new" and n: "length new \<le> length events"
        and e: "\<forall>i < length new.
           \<exists>ev. events ! i = Inr ev
             \<and> new ! i = convert_chat_completion_stream_output_to_streaming_chunk
                           (clock (length (prev @ [?c]) + i)) ev
                           ((prev @ [?c]) @ take i new) (Some ci)"
        by blast
      have "\<forall>i < length (?c # new).
           \<exists>ev'. (x # events) ! i = Inr ev'
             \<and> (?c # new) ! i = convert_chat_completion_stream_output_to_streaming_chunk
                           (clock (length prev + i)) ev' (prev @ take i (?c # new)) (Some ci)"
      proof (intro allI impI)
        fix i assume "i < length (?c # new)"
        then show "\<exists>ev'. (x # events) ! i = Inr ev'
             \<and> (?c # new) ! i = convert_chat_completion_stream_output_to_streaming_chunk
                           (clock (length prev + i)) ev' (prev @ take i (?c # new)) (Some ci)"
          using e Inr by (cases i) simp_all
      qed
      with c n show ?thesis by (intro exI [of _ "?c # new"]) simp
    qed
  qed
qed

lemma start_index_convert:
  "so_choices ev = choice # rest \<Longrightarrow>
   start (convert_chat_completion_stream_output_to_streaming_chunk t ev prev ci) = (prev = [])
   \<and> index (convert_chat_completion_stream_output_to_streaming_chunk t ev prev ci)
       = (if sc_finish_reason choice = None then Some 0 else None)"
  by (simp add: convert_chat_completion_stream_output_to_streaming_chunk_def Let_def)

text \<open>
  C7. For an event with at least one choice, the translated chunk has \<open>start\<close> exactly
  when there is no previous chunk, and index \<open>0\<close> exactly when the choice has no finish
  reason, no index otherwise. So in the chunks of a turn, a chunk of an event with a
  choice has \<open>start\<close> exactly at position \<open>0\<close>.
\<close>

theorem streaming_chunk_start_and_index:
  "(so_choices ev = choice # rest \<longrightarrow>
      start (convert_chat_completion_stream_output_to_streaming_chunk t ev prev ci) = (prev = [])
      \<and> index (convert_chat_completion_stream_output_to_streaming_chunk t ev prev ci)
          = (if sc_finish_reason choice = None then Some 0 else None))
   \<and> (stream_loop clock cb info events [] = (r, chunks) \<and> i < length chunks \<longrightarrow>
        (\<exists>e. events ! i = Inr e
           \<and> (\<forall>c cs. so_choices e = c # cs \<longrightarrow>
                 start (chunks ! i) = (i = 0)
                 \<and> index (chunks ! i) = (if sc_finish_reason c = None then Some 0 else None))))"
proof (intro conjI impI)
  assume "so_choices ev = choice # rest"
  then show "start (convert_chat_completion_stream_output_to_streaming_chunk t ev prev ci) = (prev = [])"
    using start_index_convert by blast
next
  assume "so_choices ev = choice # rest"
  then show "index (convert_chat_completion_stream_output_to_streaming_chunk t ev prev ci)
          = (if sc_finish_reason choice = None then Some 0 else None)"
    using start_index_convert by blast
next
  assume a: "stream_loop clock cb info events [] = (r, chunks) \<and> i < length chunks"
  from stream_loop_chunks [of clock cb info events "[]" r chunks] a
  obtain e where e: "events ! i = Inr e"
    and c: "chunks ! i = convert_chat_completion_stream_output_to_streaming_chunk
                           (clock i) e (take i chunks) (Some info)"
    by auto
  have "\<forall>c cs. so_choices e = c # cs \<longrightarrow>
                 start (chunks ! i) = (i = 0)
                 \<and> index (chunks ! i) = (if sc_finish_reason c = None then Some 0 else None)"
  proof (intro allI impI)
    fix c' cs assume "so_choices e = c' # cs"
    from start_index_convert [OF this, of "clock i" "take i chunks" "Some info"] a
    show "start (chunks ! i) = (i = 0)
                 \<and> index (chunks ! i) = (if sc_finish_reason c' = None then Some 0 else None)"
      by (auto simp: c)
  qed
  with e show "\<exists>e. events ! i = Inr e
           \<and> (\<forall>c cs. so_choices e = c # cs \<longrightarrow>
                 start (chunks ! i) = (i = 0)
                 \<and> index (chunks ! i) = (if sc_finish_reason c = None then Some 0 else None))"
    by blast
qed


theorem streaming_chunk_start_and_index_witness:
  "start (snd (stream_loop ex_clock ex_callback ex_info ex_events []) ! 0)
   \<and> index (snd (stream_loop ex_clock ex_callback ex_info ex_events []) ! 0) = Some 0
   \<and> \<not> start (snd (stream_loop ex_clock ex_callback ex_info ex_events []) ! 1)
   \<and> index (snd (stream_loop ex_clock ex_callback ex_info ex_events []) ! 1) = None"
proof -
  let ?r = "stream_loop ex_clock ex_callback ex_info ex_events []"
  have l: "length (snd ?r) = 2"
    by (simp add: ex_events_def ex_callback_def Let_def)
  have r: "?r = (fst ?r, snd ?r)" by simp
  have e0: "ex_events ! 0 = Inr (ex_event ''Hel'' None)"
    and e1: "ex_events ! 1 = Inr (ex_event ''lo'' (Some ''eos_token''))"
    by (simp_all add: ex_events_def)
  have c0: "so_choices (ex_event ''Hel'' None) \<noteq> []"
    and c1: "so_choices (ex_event ''lo'' (Some ''eos_token'')) \<noteq> []"
    by (simp_all add: ex_event_def)
  have f0: "sc_finish_reason (hd (so_choices (ex_event ''Hel'' None))) = None"
    and f1: "sc_finish_reason (hd (so_choices (ex_event ''lo'' (Some ''eos_token'')))) \<noteq> None"
    by (simp_all add: ex_event_def)
  from streaming_chunk_start_and_index
         [where clock = ex_clock and cb = ex_callback and info = ex_info
            and events = ex_events and r = "fst ?r" and chunks = "snd ?r" and i = 0]
       r l e0 c0 f0
  have a: "start (snd ?r ! 0) \<and> index (snd ?r ! 0) = Some 0"
    by (cases "so_choices (ex_event ''Hel'' None)") auto
  from streaming_chunk_start_and_index
         [where clock = ex_clock and cb = ex_callback and info = ex_info
            and events = ex_events and r = "fst ?r" and chunks = "snd ?r" and i = 1]
       r l e1 c1 f1
  have b: "\<not> start (snd ?r ! 1) \<and> index (snd ?r ! 1) = None"
    by (cases "so_choices (ex_event ''lo'' (Some ''eos_token''))") auto
  from a b show ?thesis by simp
qed

section \<open>Properties of the tool-call normaliser\<close>

text \<open>
  C2, at an input where the code does not do what the claim says: a string payload
  that decodes to a non-empty list. The decoded value is only tested for truth, so the
  record is emitted, with the list as its arguments; the same list given directly is
  skipped with a warning.
\<close>

theorem non_mapping_arguments_emitted:
  "convert_hfapi_tool_calls
     (Some [\<lparr>tc_function = \<lparr>fn_arguments = PStr ''[1]'', fn_name = ''weather''\<rparr>,
             tc_id = ''call_0''\<rparr>])
     = (Inr [\<lparr>tool_name = ''weather'', arguments = PList [PInt 1], toolcall_id = ''call_0''\<rparr>],
        [])
   \<and> \<not> is_dict (PList [PInt 1])
   \<and> convert_hfapi_tool_calls
     (Some [\<lparr>tc_function = \<lparr>fn_arguments = PList [PInt 1], fn_name = ''weather''\<rparr>,
             tc_id = ''call_0''\<rparr>])
     = (Inr [], [InvalidArgumentsType ''call_0'' ''weather'' (PList [PInt 1])])"
  by code_simp

text \<open>
  An integer numeral of more digits than the interpreter converts makes the decoder
  raise \<^verbatim>\<open>ValueError\<close>, not \<^verbatim>\<open>JSONDecodeError\<close>.
\<close>

lemma scan_number_long_int:
  assumes "\<forall>c \<in> set ds. is_digit c" and "int_max_str_digits \<le> length ds"
  shows "scan_number (CHR ''1'' # ds) = Some (Inl IntMaxStrDigits)"
proof -
  have o: "is_digit (CHR ''1'')" by (simp add: is_digit_def)
  have t: "takeWhile is_digit (CHR ''1'' # ds) = CHR ''1'' # ds"
    and d: "dropWhile is_digit (CHR ''1'' # ds) = []"
    using assms o by simp_all
  show ?thesis
    unfolding scan_number_def using assms(2)
    by (simp add: t d Let_def del: takeWhile.simps dropWhile.simps)
qed

lemma json_loads_long_int:
  assumes "int_max_str_digits \<le> n"
  shows "json_loads (CHR ''1'' # replicate n (CHR ''1'')) = Inl IntMaxStrDigits"
proof -
  have d: "is_digit (CHR ''1'')" by (simp add: is_digit_def)
  have w: "\<not> is_ws (CHR ''1'')" by (simp add: is_ws_def)
  have n: "scan_number (CHR ''1'' # replicate n (CHR ''1'')) = Some (Inl IntMaxStrDigits)"
    using assms by (intro scan_number_long_int) (simp_all add: d)
  have "scan_once recursion_limit (CHR ''1'' # replicate n (CHR ''1'')) = Inl IntMaxStrDigits"
    by (subst scan_once.simps) (simp add: n starts_with_def)
  then show ?thesis by (simp add: json_loads_def skip_ws_def w)
qed

text \<open>
  C5, at an input where the code does not do what the claim says: a string payload that
  is an integer numeral of 4301 digits. The exception of the decoder is not the one the
  normaliser catches, so the normaliser raises it.
\<close>

theorem normaliser_raises_on_long_numeral:
  "convert_hfapi_tool_calls
     (Some [\<lparr>tc_function = \<lparr>fn_arguments = PStr (replicate 4301 (CHR ''1'')),
                              fn_name = ''weather''\<rparr>,
             tc_id = ''call_0''\<rparr>])
     = (Inl IntMaxStrDigits, [])"
proof -
  have "replicate 4301 (CHR ''1'') = CHR ''1'' # replicate 4300 (CHR ''1'')"
    by (simp add: replicate_Suc [symmetric] del: replicate_Suc)
  then have "json_loads (replicate 4301 (CHR ''1'')) = Inl IntMaxStrDigits"
    by (simp add: json_loads_long_int int_max_str_digits_def)
  then show ?thesis
    by (simp add: convert_hfapi_tool_calls_def)
qed

section \<open>Properties of the streaming path\<close>







section \<open>Properties of the request orchestrator\<close>

text \<open>
  C9. A non-streaming call, synchronous or asynchronous, whose vendor response has an
  empty or absent list of choices returns the empty list of replies: no error, no
  warning. This holds for the private methods, and for \<open>run\<close> and \<open>run_async\<close> on
  their non-streaming path when the vendor answers every request so.
\<close>

theorem empty_choices_empty_replies:
  "((f = run_non_streaming self \<and> client = self_client self
      \<or> f = run_non_streaming_async self \<and> client = self_async_client self)
     \<and> cl_chat_completion client
          \<lparr>rq_messages = ms, rq_tools = ts, rq_stream = False, rq_include_usage = False,
           rq_kwargs = kw\<rparr> = Inr out
     \<and> (co_choices out = None \<or> co_choices out = Some [])
     \<longrightarrow> fst (f ms kw ts) = Inr [] \<and> eff_warnings (snd (f ms kw ts)) = [])
   \<and> ((g = run \<and> client' = self_client self' \<or> g = run_async \<and> client' = self_async_client self')
     \<and> lookup h (self_generation_kwargs self') = Some (DictObj defaults)
     \<and> format_messages (convert_message_to_hf_format E) messages = Inr formatted
     \<and> self_streaming_callback self' = None
     \<and> distinct (map t_name (list_of_tools (if tools_truthy tools then tools
                                               else self_tools self')))
     \<and> (\<forall>req. \<exists>out'. cl_chat_completion client' req = Inr out'
                  \<and> (co_choices out' = None \<or> co_choices out' = Some []))
     \<longrightarrow> fst (g E h self' messages generation_kwargs tools None) = Inr [])"
proof (intro conjI impI)
  assume a: "(f = run_non_streaming self \<and> client = self_client self
      \<or> f = run_non_streaming_async self \<and> client = self_async_client self)
     \<and> cl_chat_completion client
          \<lparr>rq_messages = ms, rq_tools = ts, rq_stream = False, rq_include_usage = False,
           rq_kwargs = kw\<rparr> = Inr out
     \<and> (co_choices out = None \<or> co_choices out = Some [])"
  then have f: "f ms kw ts = run_non_streaming_with client ms kw ts"
    by (auto simp: run_non_streaming_def run_non_streaming_async_def)
  from a have "run_non_streaming_with client ms kw ts
      = (Inr [], no_effects\<lparr>eff_requests := [\<lparr>rq_messages = ms, rq_tools = ts,
            rq_stream = False, rq_include_usage = False, rq_kwargs = kw\<rparr>]\<rparr>)"
    by (auto simp: run_non_streaming_with_def Let_def)
  with f show "fst (f ms kw ts) = Inr []" and "eff_warnings (snd (f ms kw ts)) = []"
    by (simp_all add: no_effects_def)
next
  assume a: "(g = run \<and> client' = self_client self' \<or> g = run_async \<and> client' = self_async_client self')
     \<and> lookup h (self_generation_kwargs self') = Some (DictObj defaults)
     \<and> format_messages (convert_message_to_hf_format E) messages = Inr formatted
     \<and> self_streaming_callback self' = None
     \<and> distinct (map t_name (list_of_tools (if tools_truthy tools then tools
                                               else self_tools self')))
     \<and> (\<forall>req. \<exists>out'. cl_chat_completion client' req = Inr out'
                  \<and> (co_choices out' = None \<or> co_choices out' = Some []))"
  have e: "\<And>ms kw ts. fst (run_non_streaming_with client' ms kw ts) = Inr []"
  proof -
    fix ms kw ts
    from a obtain out' where
      "cl_chat_completion client' \<lparr>rq_messages = ms, rq_tools = ts, rq_stream = False,
          rq_include_usage = False, rq_kwargs = kw\<rparr> = Inr out'"
      and "co_choices out' = None \<or> co_choices out' = Some []"
      by blast
    then show "fst (run_non_streaming_with client' ms kw ts) = Inr []"
      by (auto simp: run_non_streaming_with_def Let_def)
  qed
  from a have "g = run \<and> client' = self_client self' \<or> g = run_async \<and> client' = self_async_client self'"
    by blast
  then show "fst (g E h self' messages generation_kwargs tools None) = Inr []"
  proof
    assume "g = run \<and> client' = self_client self'"
    with a e show ?thesis
      by (simp add: run_def run_with_def Let_def check_duplicate_tool_names_def
            select_streaming_callback_def run_non_streaming_def)
  next
    assume "g = run_async \<and> client' = self_async_client self'"
    with a e show ?thesis
      by (simp add: run_async_def run_with_def Let_def check_duplicate_tool_names_def
            select_streaming_callback_def run_non_streaming_async_def)
  qed
qed


theorem empty_choices_empty_replies_witness:
  "fst (run_non_streaming (ex_generator None) [] [] None) = Inr []
   \<and> fst (run_async ex_env ex_store (ex_generator None) [ex_message] None None None) = Inr []"
proof -
  have a: "cl_chat_completion ex_client
          \<lparr>rq_messages = [], rq_tools = None, rq_stream = False, rq_include_usage = False,
           rq_kwargs = []\<rparr> = Inr \<lparr>co_choices = Some [], co_usage = None\<rparr>"
    by (simp add: ex_client_def)
  have b: "self_client (ex_generator None) = ex_client"
    "self_async_client (ex_generator None) = ex_client"
    "self_streaming_callback (ex_generator None) = None"
    "self_tools (ex_generator None) = None"
    "lookup ex_store (self_generation_kwargs (ex_generator None))
       = Some (DictObj [(''stop'', Ref 1), (''max_tokens'', Imm (PInt 512))])"
    by (simp_all add: ex_generator_def ex_store_def lookup_def)
  have c: "format_messages (convert_message_to_hf_format ex_env) [ex_message]
             = Inr [[(''role'', PStr ''user''), (''content'', PStr ''Hi'')]]"
    by (simp add: ex_env_def ex_message_def opt_str_def)
  have d: "\<forall>req. \<exists>out'. cl_chat_completion ex_client req = Inr out'
                  \<and> (co_choices out' = None \<or> co_choices out' = Some [])"
    by (simp add: ex_client_def)
  have t: "\<not> tools_truthy None" "list_of_tools None = []"
    by (simp_all add: tools_truthy_def list_of_tools_def)
  from empty_choices_empty_replies
         [where f = "run_non_streaming (ex_generator None)" and self = "ex_generator None"
            and client = ex_client and ms = "[]" and ts = None and kw = "[]"
            and out = "\<lparr>co_choices = Some [], co_usage = None\<rparr>"
            and g = run_async and client' = ex_client and self' = "ex_generator None"
            and h = ex_store and E = ex_env and messages = "[ex_message]"
            and tools = None
            and defaults = "[(''stop'', Ref 1), (''max_tokens'', Imm (PInt 512))]"
            and formatted = "[[(''role'', PStr ''user''), (''content'', PStr ''Hi'')]]"
            and generation_kwargs = None]
       a b c d t
  show ?thesis by simp
qed

text \<open>
  C1, at an input where the code does not do what the claim says: the instance has no
  streaming callback and no tools, the call passes one tool and a synchronous callback.
  The check of \<open>run\<close> reads the instance's callback, not the effective one, so no error
  is raised: the call streams, and the request carries no tools.
\<close>

theorem run_streams_despite_tools:
  "(case fst (run ex_env ex_store (ex_generator None) [ex_message] None
                (Some (ToolList [ex_tool])) (Some ex_callback)) of
      Inl e \<Rightarrow> False
    | Inr replies \<Rightarrow> map msg_text replies = [Some ''Hello''])
   \<and> map rq_stream (eff_requests (snd (run ex_env ex_store (ex_generator None) [ex_message] None
                (Some (ToolList [ex_tool])) (Some ex_callback)))) = [True]
   \<and> map rq_tools (eff_requests (snd (run ex_env ex_store (ex_generator None) [ex_message] None
                (Some (ToolList [ex_tool])) (Some ex_callback)))) = [None]"
  by code_simp

text \<open>
  C4, as stated, fails: with an instance callback and two tools of the same name, the
  error is the one for tools with streaming, not the one for duplicate names.
\<close>

theorem conflict_error_before_duplicate_error:
  "\<not> distinct (map t_name [ex_tool, ex_tool])
   \<and> fst (run ex_env ex_store (ex_generator (Some ex_callback)) [ex_message] None
            (Some (ToolList [ex_tool, ex_tool])) None) = Inl ToolsAndStreamingNotSupported
   \<and> fst (run ex_env ex_store (ex_generator (Some ex_callback)) [ex_message] None
            (Some (ToolList [ex_tool, ex_tool])) None) \<noteq> Inl DuplicateToolNames"
  by code_simp

lemma run_with_order:
  assumes "lookup h (self_generation_kwargs self) = Some (DictObj defaults)"
    and "format_messages (convert_message_to_hf_format E) messages = Inr formatted"
  shows "(tools_truthy (if tools_truthy tools then tools else self_tools self)
            \<and> self_streaming_callback self \<noteq> None
          \<longrightarrow> run_with b E h self messages gk tools cb
                = (Inl ToolsAndStreamingNotSupported, no_effects))
      \<and> (self_streaming_callback self = None \<and> cb = None
          \<and> \<not> distinct (map t_name (list_of_tools
                  (if tools_truthy tools then tools else self_tools self)))
          \<longrightarrow> run_with b E h self messages gk tools cb = (Inl DuplicateToolNames, no_effects))"
  using assms
  by (simp add: run_with_def Let_def check_duplicate_tool_names_def)

lemma init_order:
  assumes "hub_import_check E = None"
    and "api = SERVERLESS_INFERENCE_API \<and> dict_get ''model'' params = Some m \<and> m \<noteq> PNone
           \<and> check_valid_model E m token = None
         \<or> api \<noteq> SERVERLESS_INFERENCE_API \<and> dict_get ''url'' params = Some u \<and> u \<noteq> PNone
           \<and> is_valid_http_url E u"
  shows "(tools_truthy ts \<and> scb \<noteq> None
          \<longrightarrow> init E h (ApiType api) params token gkw sw scb ts
                = Inl ToolsAndStreamingNotSupported)
      \<and> (scb = None \<and> \<not> distinct (map t_name (list_of_tools ts))
          \<longrightarrow> init E h (ApiType api) params token gkw sw scb ts = Inl DuplicateToolNames)"
  using assms
  by (cases api; cases m; cases u)
     (simp_all add: init_def check_duplicate_tool_names_def)


text \<open>
  C4, amended. In \<open>run\<close> and \<open>run_async\<close> the conflict between non-empty effective tools
  and the instance's streaming callback is rejected first, the duplicate tool names
  after it: with such tools and an instance callback the error is the one for tools
  with streaming, whether or not names repeat; with no callback at all and repeated
  names it is the one for duplicate names. The constructor checks in the same order,
  after the checks of the API type and its parameters. No request is issued in either
  case.
\<close>

theorem validation_order:
  "((g = run \<or> g = run_async)
     \<and> lookup h (self_generation_kwargs self) = Some (DictObj defaults)
     \<and> format_messages (convert_message_to_hf_format E) messages = Inr formatted
     \<longrightarrow> (tools_truthy (if tools_truthy tools then tools else self_tools self)
            \<and> self_streaming_callback self \<noteq> None
          \<longrightarrow> g E h self messages gk tools cb = (Inl ToolsAndStreamingNotSupported, no_effects))
      \<and> (self_streaming_callback self = None \<and> cb = None
          \<and> \<not> distinct (map t_name (list_of_tools
                  (if tools_truthy tools then tools else self_tools self)))
          \<longrightarrow> g E h self messages gk tools cb = (Inl DuplicateToolNames, no_effects)))
   \<and> (hub_import_check E = None
      \<and> (api = SERVERLESS_INFERENCE_API \<and> dict_get ''model'' params = Some m \<and> m \<noteq> PNone
           \<and> check_valid_model E m token = None
         \<or> api \<noteq> SERVERLESS_INFERENCE_API \<and> dict_get ''url'' params = Some u \<and> u \<noteq> PNone
           \<and> is_valid_http_url E u)
     \<longrightarrow> (tools_truthy ts \<and> scb \<noteq> None
          \<longrightarrow> init E h0 (ApiType api) params token gkw sw scb ts
                = Inl ToolsAndStreamingNotSupported)
      \<and> (scb = None \<and> \<not> distinct (map t_name (list_of_tools ts))
          \<longrightarrow> init E h0 (ApiType api) params token gkw sw scb ts = Inl DuplicateToolNames))"
proof (rule conjI)
  show "(g = run \<or> g = run_async)
     \<and> lookup h (self_generation_kwargs self) = Some (DictObj defaults)
     \<and> format_messages (convert_message_to_hf_format E) messages = Inr formatted
     \<longrightarrow> (tools_truthy (if tools_truthy tools then tools else self_tools self)
            \<and> self_streaming_callback self \<noteq> None
          \<longrightarrow> g E h self messages gk tools cb = (Inl ToolsAndStreamingNotSupported, no_effects))
      \<and> (self_streaming_callback self = None \<and> cb = None
          \<and> \<not> distinct (map t_name (list_of_tools
                  (if tools_truthy tools then tools else self_tools self)))
          \<longrightarrow> g E h self messages gk tools cb = (Inl DuplicateToolNames, no_effects))"
  proof
    assume a: "(g = run \<or> g = run_async)
     \<and> lookup h (self_generation_kwargs self) = Some (DictObj defaults)
     \<and> format_messages (convert_message_to_hf_format E) messages = Inr formatted"
    then have "g = run_with False \<or> g = run_with True"
      by (auto simp: run_def run_async_def)
    then show "(tools_truthy (if tools_truthy tools then tools else self_tools self)
            \<and> self_streaming_callback self \<noteq> None
          \<longrightarrow> g E h self messages gk tools cb = (Inl ToolsAndStreamingNotSupported, no_effects))
      \<and> (self_streaming_callback self = None \<and> cb = None
          \<and> \<not> distinct (map t_name (list_of_tools
                  (if tools_truthy tools then tools else self_tools self)))
          \<longrightarrow> g E h self messages gk tools cb = (Inl DuplicateToolNames, no_effects))"
      using a run_with_order [of h self defaults E messages formatted tools _ gk cb]
      by blast
  qed
next
  show "hub_import_check E = None
      \<and> (api = SERVERLESS_INFERENCE_API \<and> dict_get ''model'' params = Some m \<and> m \<noteq> PNone
           \<and> check_valid_model E m token = None
         \<or> api \<noteq> SERVERLESS_INFERENCE_API \<and> dict_get ''url'' params = Some u \<and> u \<noteq> PNone
           \<and> is_valid_http_url E u)
     \<longrightarrow> (tools_truthy ts \<and> scb \<noteq> None
          \<longrightarrow> init E h0 (ApiType api) params token gkw sw scb ts
                = Inl ToolsAndStreamingNotSupported)
      \<and> (scb = None \<and> \<not> distinct (map t_name (list_of_tools ts))
          \<longrightarrow> init E h0 (ApiType api) params token gkw sw scb ts = Inl DuplicateToolNames)"
  proof
    assume a: "hub_import_check E = None
      \<and> (api = SERVERLESS_INFERENCE_API \<and> dict_get ''model'' params = Some m \<and> m \<noteq> PNone
           \<and> check_valid_model E m token = None
         \<or> api \<noteq> SERVERLESS_INFERENCE_API \<and> dict_get ''url'' params = Some u \<and> u \<noteq> PNone
           \<and> is_valid_http_url E u)"
    from a have 1: "hub_import_check E = None" by (rule conjunct1)
    from a have 2: "api = SERVERLESS_INFERENCE_API \<and> dict_get ''model'' params = Some m \<and> m \<noteq> PNone
           \<and> check_valid_model E m token = None
         \<or> api \<noteq> SERVERLESS_INFERENCE_API \<and> dict_get ''url'' params = Some u \<and> u \<noteq> PNone
           \<and> is_valid_http_url E u" by (rule conjunct2)
    from init_order [OF 1 2]
    show "(tools_truthy ts \<and> scb \<noteq> None
          \<longrightarrow> init E h0 (ApiType api) params token gkw sw scb ts
                = Inl ToolsAndStreamingNotSupported)
      \<and> (scb = None \<and> \<not> distinct (map t_name (list_of_tools ts))
          \<longrightarrow> init E h0 (ApiType api) params token gkw sw scb ts = Inl DuplicateToolNames)" .
  qed
qed

theorem validation_order_witness:
  "run ex_env ex_store (ex_generator (Some ex_callback)) [ex_message] None
       (Some (ToolList [ex_tool, ex_tool])) None
     = (Inl ToolsAndStreamingNotSupported, no_effects)
   \<and> run_async ex_env ex_store (ex_generator None) [ex_message] None
       (Some (ToolList [ex_tool, ex_tool])) None
     = (Inl DuplicateToolNames, no_effects)
   \<and> init ex_env ex_store (ApiType TEXT_GENERATION_INFERENCE)
       [(''url'', PStr ''http://localhost:8080'')] None None None (Some ex_callback)
       (Some (ToolList [ex_tool, ex_tool]))
     = Inl ToolsAndStreamingNotSupported"
proof -
  have k: "\<And>cb. lookup ex_store (self_generation_kwargs (ex_generator cb))
       = Some (DictObj [(''stop'', Ref 1), (''max_tokens'', Imm (PInt 512))])"
    by (simp add: ex_generator_def ex_store_def lookup_def)
  have c: "format_messages (convert_message_to_hf_format ex_env) [ex_message]
             = Inr [[(''role'', PStr ''user''), (''content'', PStr ''Hi'')]]"
    by (simp add: ex_env_def ex_message_def opt_str_def)
  have t: "tools_truthy (Some (ToolList [ex_tool, ex_tool]))"
    "\<not> distinct (map t_name (list_of_tools (Some (ToolList [ex_tool, ex_tool]))))"
    by (simp_all add: tools_truthy_def list_of_tools_def)
  have g: "self_streaming_callback (ex_generator (Some ex_callback)) \<noteq> None"
    "self_streaming_callback (ex_generator None) = None"
    by (simp_all add: ex_generator_def)
  have e: "hub_import_check ex_env = None"
    "dict_get ''url'' [(''url'', PStr ''http://localhost:8080'')]
       = Some (PStr ''http://localhost:8080'')"
    "is_valid_http_url ex_env (PStr ''http://localhost:8080'')"
    by (simp_all add: ex_env_def dict_get_def)
  from validation_order
         [where g = run and h = ex_store and self = "ex_generator (Some ex_callback)"
            and defaults = "[(''stop'', Ref 1), (''max_tokens'', Imm (PInt 512))]"
            and E = ex_env and messages = "[ex_message]"
            and formatted = "[[(''role'', PStr ''user''), (''content'', PStr ''Hi'')]]"
            and tools = "Some (ToolList [ex_tool, ex_tool])" and gk = None and cb = None
            and api = TEXT_GENERATION_INFERENCE
            and params = "[(''url'', PStr ''http://localhost:8080'')]"
            and u = "PStr ''http://localhost:8080''" and ts = "Some (ToolList [ex_tool, ex_tool])"
            and scb = "Some ex_callback" and h0 = ex_store and token = None and gkw = None
            and sw = None]
       k c t g e
  have a: "run ex_env ex_store (ex_generator (Some ex_callback)) [ex_message] None
       (Some (ToolList [ex_tool, ex_tool])) None
     = (Inl ToolsAndStreamingNotSupported, no_effects)
     \<and> init ex_env ex_store (ApiType TEXT_GENERATION_INFERENCE)
       [(''url'', PStr ''http://localhost:8080'')] None None None (Some ex_callback)
       (Some (ToolList [ex_tool, ex_tool]))
     = Inl ToolsAndStreamingNotSupported"
    by simp
  from validation_order
         [where g = run_async and h = ex_store and self = "ex_generator None"
            and defaults = "[(''stop'', Ref 1), (''max_tokens'', Imm (PInt 512))]"
            and E = ex_env and messages = "[ex_message]"
            and formatted = "[[(''role'', PStr ''user''), (''content'', PStr ''Hi'')]]"
            and tools = "Some (ToolList [ex_tool, ex_tool])" and gk = None and cb = None]
       k c t g
  have b: "run_async ex_env ex_store (ex_generator None) [ex_message] None
       (Some (ToolList [ex_tool, ex_tool])) None
     = (Inl DuplicateToolNames, no_effects)"
    by simp
  from a b show ?thesis by simp
qed

section \<open>Properties of the generation parameters\<close>













end
